theory Spec2Isabelle
  imports Complex_Main
begin

section \<open>Python values, exceptions and arrays\<close>

text \<open>
  The dataset module \<^verbatim>\<open>CrossSiameseNet/datasets/cf_datasets.py\<close> is dynamically typed.
  The flag \<^verbatim>\<open>use_fixed_triplets\<close> is only ever tested for truth, and \<^verbatim>\<open>get_dataset\<close>
  passes the integer \<^verbatim>\<open>123\<close> in its position, so the flag is a Python value here.
  Labels and features are floats that the code only compares with 0 and 1 and copies,
  so they are real numbers here; the one float the code computes, the quotient of
  \<^verbatim>\<open>get_pos_weights\<close>, is rounded as the floating-point formats round it.
\<close>

datatype pyval = PyBool bool | PyInt int | PyNone

fun truthy :: "pyval \<Rightarrow> bool" where
  "truthy (PyBool b) = b"
| "truthy (PyInt n) = (n \<noteq> 0)"
| "truthy PyNone = False"

fun str_nat :: "nat \<Rightarrow> string" where
  "str_nat n =
     (if n < 10 then [''0123456789'' ! n]
      else str_nat (n div 10) @ [''0123456789'' ! (n mod 10)])"

definition str_int :: "int \<Rightarrow> string" where
  "str_int n = (if n < 0 then CHR ''-'' # str_nat (nat (- n)) else str_nat (nat n))"

text \<open>What an f-string prints for a value.\<close>

fun format_value :: "pyval \<Rightarrow> string" where
  "format_value (PyBool b) = (if b then ''True'' else ''False'')"
| "format_value (PyInt n) = str_int n"
| "format_value PyNone = ''None''"

text \<open>
  Every \<^verbatim>\<open>raise\<close> of the module and every exception of the libraries it calls is a value:
  \<open>Exception msg\<close> is the module's own \<^verbatim>\<open>raise Exception(...)\<close>, the others are the
  built-in exception classes.
\<close>

datatype error =
    Exception string
  | TypeError
  | AttributeError
  | ZeroDivisionError
  | IndexError
  | ValueError
  | RuntimeError
  | UnboundLocalError

definition attempt :: "error + 'a \<Rightarrow> ('a \<Rightarrow> error + 'b) \<Rightarrow> error + 'b" where
  "attempt m f = (case m of Inl e \<Rightarrow> Inl e | Inr v \<Rightarrow> f v)"

text \<open>
  A sequence is either a torch tensor or a numpy array. \<^verbatim>\<open>torch.cat\<close> accepts a
  non-empty list of tensors only.
\<close>

datatype 'a pyarray = Tensor "'a list" | Ndarray "'a list"

fun tensor_data :: "'a pyarray \<Rightarrow> error + 'a list" where
  "tensor_data (Tensor xs) = Inr xs"
| "tensor_data (Ndarray xs) = Inl TypeError"

fun cat_tensors :: "'a pyarray list \<Rightarrow> error + 'a list" where
  "cat_tensors [] = Inr []"
| "cat_tensors (a # as) =
     (case tensor_data a of
        Inl e \<Rightarrow> Inl e
      | Inr xs \<Rightarrow> (case cat_tensors as of Inl e \<Rightarrow> Inl e | Inr ys \<Rightarrow> Inr (xs @ ys)))"

definition torch_cat :: "'a pyarray list \<Rightarrow> error + 'a list" where
  "torch_cat as = (if as = [] then Inl RuntimeError else cat_tensors as)"

text \<open>\<^verbatim>\<open>a[i]\<close> and \<^verbatim>\<open>a[indices]\<close> for a non-negative index and a list of them.\<close>

definition getitem :: "'a list \<Rightarrow> nat \<Rightarrow> error + 'a" where
  "getitem a i = (if i < length a then Inr (a ! i) else Inl IndexError)"

definition take_rows :: "'a list \<Rightarrow> nat list \<Rightarrow> error + 'a list" where
  "take_rows a indices =
     (if list_all (\<lambda>i. i < length a) indices then Inr (map (\<lambda>i. a ! i) indices)
      else Inl IndexError)"

text \<open>\<^verbatim>\<open>t.item()\<close>: the value of a tensor with exactly one element.\<close>

definition item :: "real list \<Rightarrow> error + real" where
  "item t = (case t of [v] \<Rightarrow> Inr v | _ \<Rightarrow> Inl ValueError)"

text \<open>A Python float cannot be subscripted.\<close>

definition float_getitem :: "real \<Rightarrow> nat \<Rightarrow> error + real" where
  "float_getitem x i = Inl TypeError"

text \<open>
  \<^verbatim>\<open>(y == c).nonzero()[:,0].tolist()\<close> for a two-dimensional \<^verbatim>\<open>y\<close>: the row number of every
  entry equal to \<open>c\<close>, in row-major order.
\<close>

definition eq_mask :: "real list list \<Rightarrow> real \<Rightarrow> bool list list" where
  "eq_mask y c = map (map (\<lambda>v. v = c)) y"

definition nonzero_rows :: "bool list list \<Rightarrow> nat list" where
  "nonzero_rows m =
     concat (map (\<lambda>i. replicate (length (filter (\<lambda>b. b) (m ! i))) i) [0..<length m])"

section \<open>Random sources\<close>

text \<open>
  The generators are library code. \<open>seed_state\<close> is the state \<^verbatim>\<open>np.random.RandomState\<close>
  derives from an integer seed and \<open>randint\<close> one bounded draw from a state; the drawn
  position is reduced below the length, which is the library's contract. A generator
  made with no seed starts from the state \<open>fresh\<close> the operating system provides.
\<close>

record 'g random_ops =
  seed_state :: "int \<Rightarrow> 'g"
  randint :: "'g \<Rightarrow> nat \<Rightarrow> nat \<times> 'g"

definition RandomState :: "'g random_ops \<Rightarrow> 'g \<Rightarrow> int option \<Rightarrow> error + 'g" where
  "RandomState np fresh seed =
     (case seed of
        None \<Rightarrow> Inr fresh
      | Some s \<Rightarrow> if 0 \<le> s \<and> s < 2 ^ 32 then Inr (seed_state np s) else Inl ValueError)"

text \<open>\<^verbatim>\<open>random_state.choice(a)\<close> of numpy: a \<^verbatim>\<open>ValueError\<close> on an empty list.\<close>

definition choice :: "'g random_ops \<Rightarrow> 'g \<Rightarrow> nat list \<Rightarrow> error + nat \<times> 'g" where
  "choice np g a =
     (if a = [] then Inl ValueError
      else Inr (a ! (fst (randint np g (length a)) mod length a), snd (randint np g (length a))))"

text \<open>\<^verbatim>\<open>random.choice(seq)\<close> of the standard library: an \<^verbatim>\<open>IndexError\<close> on an empty list.\<close>

definition random_choice :: "('h \<Rightarrow> nat \<Rightarrow> nat \<times> 'h) \<Rightarrow> 'h \<Rightarrow> nat list \<Rightarrow> error + nat \<times> 'h" where
  "random_choice randbelow g seq =
     (if seq = [] then Inl IndexError
      else Inr (seq ! (fst (randbelow g (length seq)) mod length seq), snd (randbelow g (length seq))))"

section \<open>The datasets\<close>

record dc_Datset =
  dc_X :: "real list list"
  dc_y :: "real list list"
  dc_ids :: "string list"

text \<open>
  \<^verbatim>\<open>MolDataset\<close>: \<open>tensor_X\<close> and \<open>tensor_y\<close> are the float tensors \<^verbatim>\<open>self.X\<close> and
  \<^verbatim>\<open>self.y\<close>; \<open>smiles\<close> stays the numpy array of the DeepChem dataset.
\<close>

record MolDataset =
  tensor_X :: "real list list"
  tensor_y :: "real list list"
  smiles :: "string list"
  n_molecules :: nat

definition MolDataset_init :: "dc_Datset \<Rightarrow> MolDataset" where
  "MolDataset_init dc_dataset =
     \<lparr>tensor_X = dc_X dc_dataset, tensor_y = dc_y dc_dataset,
      smiles = dc_ids dc_dataset, n_molecules = length (dc_ids dc_dataset)\<rparr>"

text \<open>
  \<^verbatim>\<open>MolDatasetTriplet\<close> extends it. \<open>fixed_triplets\<close> is \<open>None\<close> while the attribute has
  never been assigned; the cache is the list
  \<^verbatim>\<open>[anchor_mf, positive_mf, negative_mf, anchor_label]\<close>, whose last entry is one float.
\<close>

type_synonym fixed_cache = "real list list \<times> real list list \<times> real list list \<times> real"

record MolDatasetTriplet = MolDataset +
  train :: bool
  oversample :: bool
  use_fixed_triplets :: pyval
  seed_fixed_triplets :: "int option"
  indices_0 :: "nat list"
  indices_1 :: "nat list"
  fixed_triplets :: "fixed_cache option"

text \<open>
  The loop of \<^verbatim>\<open>__get_fixed_dataset\<close> over \<^verbatim>\<open>self.y.tolist()\<close>. The state is the generator,
  the two index lists and the loop variable \<^verbatim>\<open>anchor_label\<close>, unbound (\<open>None\<close>) before the
  first pass.
\<close>

type_synonym 'g draw_state = "'g \<times> nat list \<times> nat list \<times> real option"

fun draw_fixed ::
  "'g random_ops \<Rightarrow> nat list \<Rightarrow> nat list \<Rightarrow> real list list \<Rightarrow> 'g draw_state
    \<Rightarrow> error + 'g draw_state" where
  "draw_fixed np i0 i1 [] st = Inr st"
| "draw_fixed np i0 i1 (label_packed # rest) (g, positive_indices, negative_indices, label) =
     (case label_packed of
        [] \<Rightarrow> Inl IndexError
      | anchor_label # _ \<Rightarrow>
          (if anchor_label = 1 then
             (case choice np g i1 of
                Inl e \<Rightarrow> Inl e
              | Inr (p, g1) \<Rightarrow>
                  (case choice np g1 i0 of
                     Inl e \<Rightarrow> Inl e
                   | Inr (n, g2) \<Rightarrow>
                       draw_fixed np i0 i1 rest
                         (g2, positive_indices @ [p], negative_indices @ [n], Some anchor_label)))
           else
             (case choice np g i0 of
                Inl e \<Rightarrow> Inl e
              | Inr (p, g1) \<Rightarrow>
                  (case choice np g1 i1 of
                     Inl e \<Rightarrow> Inl e
                   | Inr (n, g2) \<Rightarrow>
                       draw_fixed np i0 i1 rest
                         (g2, positive_indices @ [p], negative_indices @ [n], Some anchor_label)))))"

text \<open>The index lists the loop leaves behind, for the seed and partitions of a dataset.\<close>

definition fixed_indices ::
  "'g random_ops \<Rightarrow> 'g \<Rightarrow> MolDatasetTriplet \<Rightarrow> error + 'g draw_state" where
  "fixed_indices np fresh self =
     attempt (RandomState np fresh (seed_fixed_triplets self)) (\<lambda>random_state.
       draw_fixed np (indices_0 self) (indices_1 self) (tensor_y self)
         (random_state, [], [], None))"

definition get_fixed_dataset ::
  "'g random_ops \<Rightarrow> 'g \<Rightarrow> MolDatasetTriplet \<Rightarrow> error + fixed_cache" where
  "get_fixed_dataset np fresh self =
     attempt (fixed_indices np fresh self) (\<lambda>(g, positive_indices, negative_indices, label).
     attempt (take_rows (tensor_X self) positive_indices) (\<lambda>positive_mf.
     attempt (take_rows (tensor_X self) negative_indices) (\<lambda>negative_mf.
       (case label of
          None \<Rightarrow> Inl UnboundLocalError
        | Some anchor_label \<Rightarrow> Inr (tensor_X self, positive_mf, negative_mf, anchor_label)))))"

definition config_message :: "bool \<Rightarrow> pyval \<Rightarrow> string" where
  "config_message ov uf =
     ''MolDatasetTriplet initiated with wrong parameters: oversample(value: ''
       @ format_value (PyBool ov) @ '') and use_fixed_triplets(value: ''
       @ format_value uf @ '')''"

text \<open>
  \<^verbatim>\<open>MolDatasetTriplet.__init__\<close>. The branches are those of the source, in its order; the
  last \<^verbatim>\<open>elif self.use_fixed_triplets\<close> is the only case the first three leave.
\<close>

definition MolDatasetTriplet_init ::
  "'g random_ops \<Rightarrow> 'g \<Rightarrow> dc_Datset \<Rightarrow> bool \<Rightarrow> bool \<Rightarrow> pyval \<Rightarrow> int option
    \<Rightarrow> error + MolDatasetTriplet" where
  "MolDatasetTriplet_init np fresh dc_dataset tr ov uf seed =
     (let self = MolDataset.extend (MolDataset_init dc_dataset)
            (MolDatasetTriplet.fields tr ov uf seed [] [] None);
          i0 = nonzero_rows (eq_mask (tensor_y self) 0);
          i1 = nonzero_rows (eq_mask (tensor_y self) 1)
      in
      if ov \<and> \<not> truthy uf then
        (if length i1 = 0 then Inl ZeroDivisionError
         else
           let oversampling_multiplicator = length i0 div length i1 in
           attempt (take_rows (tensor_X self) i0) (\<lambda>X_0.
           attempt (take_rows (tensor_X self) i1) (\<lambda>X_1.
           attempt (take_rows (tensor_y self) i0) (\<lambda>y_0.
           attempt (take_rows (tensor_y self) i1) (\<lambda>y_1.
           attempt (take_rows (smiles self) i0) (\<lambda>smiles_0.
           attempt (take_rows (smiles self) i1) (\<lambda>smiles_1.
           attempt (torch_cat (replicate oversampling_multiplicator (Tensor X_1))) (\<lambda>oversampled_X_1.
           attempt (torch_cat (replicate oversampling_multiplicator (Tensor y_1))) (\<lambda>oversampled_y_1.
           attempt (torch_cat (replicate oversampling_multiplicator (Ndarray smiles_1)))
             (\<lambda>oversampled_smiles_1.
           attempt (torch_cat [Tensor X_0, Tensor oversampled_X_1]) (\<lambda>new_X.
           attempt (torch_cat [Tensor y_0, Tensor oversampled_y_1]) (\<lambda>new_y.
           attempt (torch_cat [Ndarray smiles_0, Tensor oversampled_smiles_1]) (\<lambda>new_smiles.
             Inr (self\<lparr>tensor_X := new_X, tensor_y := new_y, smiles := new_smiles,
                       indices_0 := nonzero_rows (eq_mask new_y 0),
                       indices_1 := nonzero_rows (eq_mask new_y 1)\<rparr>))))))))))))))
      else if \<not> ov \<and> \<not> truthy uf then
        Inr (self\<lparr>indices_0 := i0, indices_1 := i1\<rparr>)
      else if ov \<and> truthy uf then
        Inl (Exception (config_message ov uf))
      else
        (let self = self\<lparr>indices_0 := i0, indices_1 := i1\<rparr> in
         attempt (get_fixed_dataset np fresh self) (\<lambda>cache.
           Inr (self\<lparr>fixed_triplets := Some cache\<rparr>))))"

text \<open>
  \<^verbatim>\<open>MolDatasetTriplet.__getitem__\<close>, for a non-negative \<^verbatim>\<open>id0\<close>. The draws of the first
  branch come from the process-wide generator of \<^verbatim>\<open>random\<close>, whose state \<open>g\<close> is passed in
  and returned; \<open>randbelow\<close> is its bounded draw.
\<close>

type_synonym triplet = "real list \<times> real list \<times> real list \<times> real"

definition MolDatasetTriplet_getitem ::
  "('h \<Rightarrow> nat \<Rightarrow> nat \<times> 'h) \<Rightarrow> MolDatasetTriplet \<Rightarrow> nat \<Rightarrow> 'h \<Rightarrow> error + triplet \<times> 'h" where
  "MolDatasetTriplet_getitem randbelow self id0 g =
     (if \<not> truthy (use_fixed_triplets self) \<and> train self = False then
        attempt (getitem (tensor_X self) id0) (\<lambda>anchor_mf.
        attempt (getitem (tensor_y self) id0) (\<lambda>row.
        attempt (item row) (\<lambda>anchor_label.
        attempt
          (if anchor_label = 1 then
             attempt (random_choice randbelow g (indices_1 self)) (\<lambda>(positive_index, g1).
             attempt (random_choice randbelow g1 (indices_0 self)) (\<lambda>(negative_index, g2).
               Inr (positive_index, negative_index, g2)))
           else
             attempt (random_choice randbelow g (indices_0 self)) (\<lambda>(positive_index, g1).
             attempt (random_choice randbelow g1 (indices_1 self)) (\<lambda>(negative_index, g2).
               Inr (positive_index, negative_index, g2))))
          (\<lambda>(positive_index, negative_index, g').
        attempt (getitem (tensor_X self) positive_index) (\<lambda>positive_mf.
        attempt (getitem (tensor_X self) negative_index) (\<lambda>negative_mf.
          Inr ((anchor_mf, positive_mf, negative_mf, anchor_label), g')))))))
      else
        (case fixed_triplets self of
           None \<Rightarrow> Inl AttributeError
         | Some (anchors, positives, negatives, label) \<Rightarrow>
             attempt (getitem anchors id0) (\<lambda>anchor_mf.
             attempt (getitem positives id0) (\<lambda>positive_mf.
             attempt (getitem negatives id0) (\<lambda>negative_mf.
             attempt (float_getitem label id0) (\<lambda>anchor_label.
               Inr ((anchor_mf, positive_mf, negative_mf, anchor_label), g)))))))"

text \<open>
  Binary floating point, as far as \<^verbatim>\<open>get_pos_weights\<close> needs it. A value is a fraction of
  two natural numbers. \<open>float_round p\<close> rounds a fraction to the nearest number with a
  significand of \<open>p\<close> bits, ties to the even significand. The exponent is not bounded: the
  fractions rounded here are quotients of two list lengths, which lie between \<open>2^-63\<close> and
  \<open>2^63\<close> and so reach neither end of the exponent range of either format.
\<close>

fun bit_length :: "nat \<Rightarrow> nat" where
  "bit_length n = (if n = 0 then 0 else Suc (bit_length (n div 2)))"

declare bit_length.simps [simp del]

text \<open>The nearest integer to \<open>a / b\<close>, ties to even.\<close>

definition round_half_even :: "nat \<Rightarrow> nat \<Rightarrow> nat" where
  "round_half_even a b =
     (if 2 * (a mod b) < b then a div b
      else if b < 2 * (a mod b) then Suc (a div b)
      else if even (a div b) then a div b
      else Suc (a div b))"

text \<open>\<open>\<lfloor>log\<^sub>2 (a / b)\<rfloor>\<close> for positive \<open>a\<close> and \<open>b\<close>.\<close>

definition floor_log2 :: "nat \<Rightarrow> nat \<Rightarrow> int" where
  "floor_log2 a b =
     (if b \<le> a then int (bit_length (a div b)) - 1
      else - int (bit_length ((b + a - 1) div a - 1)))"

definition float_round :: "nat \<Rightarrow> nat \<times> nat \<Rightarrow> nat \<times> nat" where
  "float_round p q =
     (case q of (a, b) \<Rightarrow>
        if a = 0 then (0, 1)
        else
          let u = floor_log2 a b - (int p - 1) in
          if 0 \<le> u then (round_half_even a (b * 2 ^ nat u) * 2 ^ nat u, 1)
          else (round_half_even (a * 2 ^ nat (- u)) b, 2 ^ nat (- u)))"

definition fraction :: "nat \<times> nat \<Rightarrow> real" where
  "fraction q = real (fst q) / real (snd q)"

text \<open>
  Python's \<^verbatim>\<open>a / b\<close> on two integers: the quotient rounded once to a float (53 bits), or a
  \<^verbatim>\<open>ZeroDivisionError\<close>. \<^verbatim>\<open>torch.tensor\<close> of a list of Python numbers is a float32 tensor
  (24 bits).
\<close>

definition true_div :: "nat \<Rightarrow> nat \<Rightarrow> error + nat \<times> nat" where
  "true_div a b = (if b = 0 then Inl ZeroDivisionError else Inr (float_round 53 (a, b)))"

definition torch_tensor :: "(nat \<times> nat) list \<Rightarrow> real list" where
  "torch_tensor xs = map (\<lambda>x. fraction (float_round 24 x)) xs"

text \<open>\<^verbatim>\<open>get_pos_weights\<close>: the tensor \<^verbatim>\<open>[1, len(indices_0) / len(indices_1)]\<close>.\<close>

definition get_pos_weights :: "MolDatasetTriplet \<Rightarrow> error + real list" where
  "get_pos_weights self =
     attempt (true_div (length (indices_0 self)) (length (indices_1 self))) (\<lambda>w.
       Inr (torch_tensor [(1, 1), w]))"

definition refresh_fixed_triplets ::
  "'g random_ops \<Rightarrow> 'g \<Rightarrow> MolDatasetTriplet \<Rightarrow> int \<Rightarrow> error + MolDatasetTriplet" where
  "refresh_fixed_triplets np fresh self seed =
     (let self = self\<lparr>seed_fixed_triplets := Some seed\<rparr> in
      attempt (get_fixed_dataset np fresh self) (\<lambda>cache.
        Inr (self\<lparr>fixed_triplets := Some cache\<rparr>)))"

section \<open>The dataset factory\<close>

text \<open>
  The DeepChem loaders are library code reached over the network: \<open>load\<close> stands for
  them, from the loader chosen, the fingerprint radius and size and the splitter to the
  tuple of datasets, or an exception. \<open>entropy k\<close> is the state the operating system
  gives the \<open>k\<close>-th dataset whose generator is made without a seed.
\<close>

datatype molnet_loader = load_hiv | load_delaney | load_lipo | load_freesolv | load_tox21 "string list"

datatype torch_dataset = Pairs MolDataset | Triplets MolDatasetTriplet

datatype returned =
    ReturnNone
  | ReturnSplits torch_dataset torch_dataset torch_dataset
  | ReturnWhole dc_Datset

text \<open>\<^verbatim>\<open>dataset_name[dataset_name.find("_")+1:]\<close>: \<^verbatim>\<open>find\<close> is \<open>-1\<close> when there is no underscore.\<close>

definition task_of :: "string \<Rightarrow> string" where
  "task_of dataset_name =
     (case dropWhile (\<lambda>c. c \<noteq> CHR ''_'') dataset_name of
        [] \<Rightarrow> dataset_name
      | _ # rest \<Rightarrow> rest)"

definition select_loader :: "string \<Rightarrow> molnet_loader option" where
  "select_loader dataset_name =
     (if dataset_name = ''hiv'' then Some load_hiv
      else if dataset_name = ''delaney'' then Some load_delaney
      else if dataset_name = ''lipo'' then Some load_lipo
      else if dataset_name = ''freesolv'' then Some load_freesolv
      else if take 5 dataset_name = ''tox21'' then Some (load_tox21 [task_of dataset_name])
      else None)"

text \<open>\<^verbatim>\<open>datasets[k]\<close>: the name is unbound when no loader was chosen.\<close>

definition datasets_at :: "dc_Datset list option \<Rightarrow> nat \<Rightarrow> error + dc_Datset" where
  "datasets_at datasets k =
     (case datasets of None \<Rightarrow> Inl UnboundLocalError | Some ds \<Rightarrow> getitem ds k)"

definition get_dataset ::
  "'g random_ops \<Rightarrow> (nat \<Rightarrow> 'g) \<Rightarrow> (molnet_loader \<Rightarrow> nat \<times> nat \<Rightarrow> 's option \<Rightarrow> error + dc_Datset list)
    \<Rightarrow> string \<Rightarrow> 's option \<Rightarrow> nat \<Rightarrow> nat \<Rightarrow> bool \<Rightarrow> bool \<Rightarrow> bool \<Rightarrow> int option
    \<Rightarrow> error + returned" where
  "get_dataset np entropy load dataset_name splitter cf_radius cf_size triplet_loss ov
     use_fixed_train_triplets seed_fixed_train_triplets =
     (if use_fixed_train_triplets \<and> \<not> triplet_loss then Inr ReturnNone
      else
        attempt
          (case select_loader dataset_name of
             None \<Rightarrow> Inr None
           | Some loader \<Rightarrow>
               attempt (load loader (cf_radius, cf_size) splitter) (\<lambda>ds. Inr (Some ds)))
          (\<lambda>datasets.
        if splitter \<noteq> None then
          (if triplet_loss then
             attempt (datasets_at datasets 0) (\<lambda>d0.
             attempt (MolDatasetTriplet_init np (entropy 0) d0 True ov
                        (PyBool use_fixed_train_triplets) seed_fixed_train_triplets)
               (\<lambda>train_dataset.
             attempt (datasets_at datasets 1) (\<lambda>d1.
             attempt (MolDatasetTriplet_init np (entropy 1) d1 False True (PyInt 123) None)
               (\<lambda>valid_dataset.
             attempt (datasets_at datasets 2) (\<lambda>d2.
             attempt (MolDatasetTriplet_init np (entropy 2) d2 False True (PyInt 123) None)
               (\<lambda>test_dataset.
               Inr (ReturnSplits (Triplets train_dataset) (Triplets valid_dataset)
                      (Triplets test_dataset))))))))
           else
             attempt (datasets_at datasets 0) (\<lambda>d0.
             attempt (datasets_at datasets 1) (\<lambda>d1.
             attempt (datasets_at datasets 2) (\<lambda>d2.
               Inr (ReturnSplits (Pairs (MolDataset_init d0)) (Pairs (MolDataset_init d1))
                      (Pairs (MolDataset_init d2)))))))
        else
          attempt (datasets_at datasets 0) (\<lambda>d0. Inr (ReturnWhole d0))))"

section \<open>The training loop\<close>

text \<open>
  \<^verbatim>\<open>train_triplet\<close> of \<^verbatim>\<open>CrossSiameseNet/train_new.py\<close>, as far as it acts on the training
  dataset \<^verbatim>\<open>train_loader.dataset\<close>, a \<^verbatim>\<open>MolDatasetTriplet\<close>: the loop reads its partitions
  and its stored seed and calls its \<^verbatim>\<open>refresh_fixed_triplets\<close>.

  The train pass calls \<^verbatim>\<open>loader.dataset.shuffle_data(train_loader.batch_size)\<close>. Neither
  \<^verbatim>\<open>MolDatasetTriplet\<close> nor \<^verbatim>\<open>MolDataset\<close> nor torch's \<^verbatim>\<open>Dataset\<close> has such an attribute, so
  the lookup raises.
\<close>

definition shuffle_data :: "MolDatasetTriplet \<Rightarrow> nat \<Rightarrow> error + MolDatasetTriplet" where
  "shuffle_data self batch_size = Inl AttributeError"

text \<open>
  The batch loop of a pass and what follows it in the pass run the model, the loss, the
  optimiser, the batch shaper and the loaders, which are library code or code the two
  source files do not hold: \<open>batches state\<close> stands for them, given the training dataset
  and returning it as the pass leaves it, or an exception.
\<close>

definition run_pass ::
  "(string \<Rightarrow> MolDatasetTriplet \<Rightarrow> error + MolDatasetTriplet) \<Rightarrow> nat \<Rightarrow> string
    \<Rightarrow> MolDatasetTriplet \<Rightarrow> error + MolDatasetTriplet" where
  "run_pass batches batch_size state dataset =
     (if state = ''train'' then
        attempt (shuffle_data dataset batch_size) (\<lambda>shuffled. batches state shuffled)
      else batches state dataset)"

text \<open>Lines 33 and 34: the refresh at the head of the loop body.\<close>

definition refresh_for_epoch ::
  "'g random_ops \<Rightarrow> 'g \<Rightarrow> bool \<Rightarrow> nat \<Rightarrow> MolDatasetTriplet \<Rightarrow> error + MolDatasetTriplet" where
  "refresh_for_epoch np fresh use_fixed_training_triplets epoch dataset =
     (if epoch > 0 \<and> use_fixed_training_triplets then
        (case seed_fixed_triplets dataset of
           None \<Rightarrow> Inl TypeError
         | Some s \<Rightarrow> refresh_fixed_triplets np fresh dataset (s + int epoch))
      else Inr dataset)"

text \<open>The loop body for the epochs listed: the refresh, the train pass, the test pass.\<close>

fun epochs ::
  "'g random_ops \<Rightarrow> 'g \<Rightarrow> bool \<Rightarrow> (string \<Rightarrow> MolDatasetTriplet \<Rightarrow> error + MolDatasetTriplet)
    \<Rightarrow> nat \<Rightarrow> nat list \<Rightarrow> MolDatasetTriplet \<Rightarrow> error + MolDatasetTriplet" where
  "epochs np fresh use_fixed_training_triplets batches batch_size [] dataset = Inr dataset"
| "epochs np fresh use_fixed_training_triplets batches batch_size (epoch # rest) dataset =
     (case refresh_for_epoch np fresh use_fixed_training_triplets epoch dataset of
        Inl e \<Rightarrow> Inl e
      | Inr refreshed \<Rightarrow>
          (case run_pass batches batch_size ''train'' refreshed of
             Inl e \<Rightarrow> Inl e
           | Inr trained \<Rightarrow>
               (case run_pass batches batch_size ''test'' trained of
                  Inl e \<Rightarrow> Inl e
                | Inr tested \<Rightarrow>
                    epochs np fresh use_fixed_training_triplets batches batch_size rest tested)))"

definition train_triplet ::
  "'g random_ops \<Rightarrow> 'g \<Rightarrow> (string \<Rightarrow> MolDatasetTriplet \<Rightarrow> error + MolDatasetTriplet) \<Rightarrow> nat
    \<Rightarrow> MolDatasetTriplet \<Rightarrow> nat \<Rightarrow> bool \<Rightarrow> error + MolDatasetTriplet" where
  "train_triplet np fresh batches batch_size dataset n_epochs use_fixed_training_triplets =
     (if length (indices_1 dataset) = 0 then Inl ZeroDivisionError
      else epochs np fresh use_fixed_training_triplets batches batch_size [0..<n_epochs] dataset)"

section \<open>Example inputs\<close>

text \<open>
  A generator to run the definitions on: its state counts the draws made, and a draw
  returns the count.
\<close>

definition counter_ops :: "nat random_ops" where
  "counter_ops = \<lparr>seed_state = nat, randint = (\<lambda>g n. (g, Suc g))\<rparr>"

definition counter_randbelow :: "nat \<Rightarrow> nat \<Rightarrow> nat \<times> nat" where
  "counter_randbelow g n = (g, Suc g)"

text \<open>Three molecules labelled 0 and one labelled 1.\<close>

definition store_3_1 :: dc_Datset where
  "store_3_1 =
     \<lparr>dc_X = [[1, 0], [0, 1], [1, 1], [0, 0]], dc_y = [[0], [0], [0], [1]],
      dc_ids = [''C'', ''CC'', ''CCC'', ''CO'']\<rparr>"

text \<open>A store with a single molecule, labelled 0.\<close>

definition store_1_0 :: dc_Datset where
  "store_1_0 = \<lparr>dc_X = [[1, 0]], dc_y = [[0]], dc_ids = [''C'']\<rparr>"

text \<open>Eighty molecules labelled 0 followed by twenty labelled 1.\<close>

definition store_80_20 :: dc_Datset where
  "store_80_20 =
     \<lparr>dc_X = replicate 100 [1, 0], dc_y = replicate 80 [0] @ replicate 20 [1],
      dc_ids = replicate 100 ''C''\<rparr>"

text \<open>
  The loaders answering with that store for each of the three splits, and an operating
  system whose unseeded generator state is always 0.
\<close>

definition loader_3_1 ::
  "molnet_loader \<Rightarrow> nat \<times> nat \<Rightarrow> unit option \<Rightarrow> error + dc_Datset list" where
  "loader_3_1 loader featurizer splitter = Inr [store_3_1, store_3_1, store_3_1]"

definition no_entropy :: "nat \<Rightarrow> nat" where
  "no_entropy k = 0"

text \<open>Batch loops that leave the dataset as it is.\<close>

definition no_batches :: "string \<Rightarrow> MolDatasetTriplet \<Rightarrow> error + MolDatasetTriplet" where
  "no_batches state dataset = Inr dataset"

text \<open>One molecule labelled 0 followed by three labelled 1.\<close>

definition store_1_3 :: dc_Datset where
  "store_1_3 =
     \<lparr>dc_X = [[1, 0], [0, 1], [1, 1], [0, 0]], dc_y = [[0], [1], [1], [1]],
      dc_ids = [''C'', ''CC'', ''CCC'', ''CO'']\<rparr>"

text \<open>
  The datasets the constructor builds from these stores (each is shown below to be the
  constructor's result): for evaluation and for training without fixed triplets, with
  fixed triplets for the seeds 5 and 0, the latter refreshed with the seed 1, and with
  fixed triplets and no seed where the operating system gives the generator the state 0
  or 1.
\<close>

definition eval_3_1 :: MolDatasetTriplet where
  "eval_3_1 =
     \<lparr>tensor_X = [[1, 0], [0, 1], [1, 1], [0, 0]], tensor_y = [[0], [0], [0], [1]],
      smiles = [''C'', ''CC'', ''CCC'', ''CO''], n_molecules = 4,
      train = False, oversample = False, use_fixed_triplets = PyBool False,
      seed_fixed_triplets = None, indices_0 = [0, 1, 2], indices_1 = [3],
      fixed_triplets = None\<rparr>"

definition training_3_1 :: MolDatasetTriplet where
  "training_3_1 = eval_3_1\<lparr>train := True\<rparr>"

definition fixed_eval_3_1 :: MolDatasetTriplet where
  "fixed_eval_3_1 =
     eval_3_1\<lparr>use_fixed_triplets := PyBool True, seed_fixed_triplets := Some 5,
       fixed_triplets :=
         Some ([[1, 0], [0, 1], [1, 1], [0, 0]], [[1, 1], [0, 1], [1, 0], [0, 0]],
               [[0, 0], [0, 0], [0, 0], [1, 0]], 1)\<rparr>"

definition fixed_training_3_1 :: MolDatasetTriplet where
  "fixed_training_3_1 =
     eval_3_1\<lparr>train := True, use_fixed_triplets := PyBool True, seed_fixed_triplets := Some 0,
       fixed_triplets :=
         Some ([[1, 0], [0, 1], [1, 1], [0, 0]], [[1, 0], [1, 1], [0, 1], [0, 0]],
               [[0, 0], [0, 0], [0, 0], [0, 1]], 1)\<rparr>"

definition refreshed_seed_1 :: MolDatasetTriplet where
  "refreshed_seed_1 =
     fixed_training_3_1\<lparr>seed_fixed_triplets := Some 1,
       fixed_triplets :=
         Some ([[1, 0], [0, 1], [1, 1], [0, 0]], [[0, 1], [1, 0], [1, 1], [0, 0]],
               [[0, 0], [0, 0], [0, 0], [1, 1]], 1)\<rparr>"

definition unseeded_0 :: MolDatasetTriplet where
  "unseeded_0 =
     eval_3_1\<lparr>use_fixed_triplets := PyBool True,
       fixed_triplets :=
         Some ([[1, 0], [0, 1], [1, 1], [0, 0]], [[1, 0], [1, 1], [0, 1], [0, 0]],
               [[0, 0], [0, 0], [0, 0], [0, 1]], 1)\<rparr>"

definition unseeded_1 :: MolDatasetTriplet where
  "unseeded_1 =
     eval_3_1\<lparr>use_fixed_triplets := PyBool True,
       fixed_triplets :=
         Some ([[1, 0], [0, 1], [1, 1], [0, 0]], [[0, 1], [1, 0], [1, 1], [0, 0]],
               [[0, 0], [0, 0], [0, 0], [1, 1]], 1)\<rparr>"

definition eval_1_0 :: MolDatasetTriplet where
  "eval_1_0 =
     \<lparr>tensor_X = [[1, 0]], tensor_y = [[0]], smiles = [''C''], n_molecules = 1,
      train = False, oversample = False, use_fixed_triplets = PyBool False,
      seed_fixed_triplets = None, indices_0 = [0], indices_1 = [],
      fixed_triplets = None\<rparr>"

definition eval_1_3 :: MolDatasetTriplet where
  "eval_1_3 =
     \<lparr>tensor_X = [[1, 0], [0, 1], [1, 1], [0, 0]], tensor_y = [[0], [1], [1], [1]],
      smiles = [''C'', ''CC'', ''CCC'', ''CO''], n_molecules = 4,
      train = False, oversample = False, use_fixed_triplets = PyBool False,
      seed_fixed_triplets = None, indices_0 = [0], indices_1 = [1, 2, 3],
      fixed_triplets = None\<rparr>"

definition eval_80_20 :: MolDatasetTriplet where
  "eval_80_20 =
     \<lparr>tensor_X = replicate 100 [1, 0], tensor_y = replicate 80 [0] @ replicate 20 [1],
      smiles = replicate 100 ''C'', n_molecules = 100,
      train = False, oversample = False, use_fixed_triplets = PyBool False,
      seed_fixed_triplets = None, indices_0 = [0..<80], indices_1 = [80..<100],
      fixed_triplets = None\<rparr>"

section \<open>Basic facts\<close>

lemma attempt_Inl [simp]: "attempt (Inl e) f = Inl e"
  by (simp add: attempt_def)

lemma attempt_Inr [simp]: "attempt (Inr v) f = f v"
  by (simp add: attempt_def)

lemma attempt_eq_Inr: "attempt m f = Inr r \<longleftrightarrow> (\<exists>v. m = Inr v \<and> f v = Inr r)"
  by (cases m) simp_all

lemma attempt_fails: "(\<And>v. \<exists>e. f v = Inl e) \<Longrightarrow> \<exists>e. attempt m f = Inl e"
  by (cases m) simp_all

lemma constructed_examples:
  "MolDatasetTriplet_init counter_ops 0 store_3_1 False False (PyBool False) None = Inr eval_3_1"
  "MolDatasetTriplet_init counter_ops 0 store_3_1 True False (PyBool False) None = Inr training_3_1"
  "MolDatasetTriplet_init counter_ops 0 store_3_1 False False (PyBool True) (Some 5) = Inr fixed_eval_3_1"
  "MolDatasetTriplet_init counter_ops 0 store_3_1 True False (PyBool True) (Some 0) = Inr fixed_training_3_1"
  "MolDatasetTriplet_init counter_ops 0 store_1_0 False False (PyBool False) None = Inr eval_1_0"
  by code_simp+

text \<open>
  \<^verbatim>\<open>torch.cat\<close> over copies of a numpy array never returns: there are no copies, or the
  first is not a tensor.
\<close>

lemma torch_cat_Ndarray: "\<exists>e. torch_cat (replicate k (Ndarray xs)) = Inl e"
  by (cases k) (simp_all add: torch_cat_def)

lemma attempt_torch_cat_Ndarray:
  "\<exists>e. attempt (torch_cat (replicate k (Ndarray xs))) f = Inl e"
  using torch_cat_Ndarray [of k xs] by auto

text \<open>
  So the oversampling branch of the constructor never yields a dataset: it stops at the
  division when no label is 1, at an index out of range, at \<^verbatim>\<open>torch.cat\<close> of an empty
  list when the multiplier is 0, and otherwise at \<^verbatim>\<open>torch.cat\<close> of the numpy array of
  SMILES strings.
\<close>

lemma oversample_never_constructs:
  assumes "\<not> truthy uf"
  shows "\<exists>e. MolDatasetTriplet_init np fresh dc_dataset tr True uf seed = Inl e"
proof (cases "nonzero_rows (eq_mask (dc_y dc_dataset) 1) = []")
  case True
  with assms show ?thesis
    by (simp add: MolDatasetTriplet_init_def Let_def MolDataset_init_def
        MolDatasetTriplet.defs MolDataset.defs)
next
  case False
  with assms show ?thesis
    apply (simp add: MolDatasetTriplet_init_def Let_def MolDataset_init_def
        MolDatasetTriplet.defs MolDataset.defs)
    apply (rule attempt_torch_cat_Ndarray | rule attempt_fails)+
    done
qed

text \<open>
  The call \<^verbatim>\<open>MolDatasetTriplet(datasets[k], False, True, 123)\<close> of \<^verbatim>\<open>get_dataset\<close> binds
  \<^verbatim>\<open>oversample = True\<close> and \<^verbatim>\<open>use_fixed_triplets = 123\<close>, and leaves the seed at \<^verbatim>\<open>None\<close>.
\<close>

lemma eval_dataset_never_built:
  "MolDatasetTriplet_init np fresh dc_dataset False True (PyInt 123) None =
     Inl (Exception
       ''MolDatasetTriplet initiated with wrong parameters: oversample(value: True) and use_fixed_triplets(value: 123)'')"
  by (simp add: MolDatasetTriplet_init_def config_message_def Let_def str_int_def)

lemma get_dataset_triplet_never_returns:
  "\<exists>e. get_dataset np entropy load dataset_name (Some splitter) cf_radius cf_size True ov
          use_fixed_train_triplets seed = Inl e"
  unfolding get_dataset_def
  apply (simp add: eval_dataset_never_built)
  apply (rule attempt_fails)+
  apply simp
  done

lemma training_getitem_fails:
  assumes "MolDatasetTriplet_init np fresh dc_dataset True ov uf seed = Inr self"
    and "\<not> truthy uf"
  shows "MolDatasetTriplet_getitem randbelow self id0 g = Inl AttributeError"
proof -
  have ov: "\<not> ov"
    using assms oversample_never_constructs [of uf np fresh dc_dataset True seed]
    by (cases ov) auto
  with assms have "train self" and "fixed_triplets self = None"
    by (auto simp: MolDatasetTriplet_init_def Let_def MolDataset_init_def
        MolDatasetTriplet.defs MolDataset.defs)
  then show ?thesis
    by (simp add: MolDatasetTriplet_getitem_def)
qed

lemma cached_getitem_fails:
  assumes "truthy (use_fixed_triplets self) \<or> train self"
  shows "\<exists>e. MolDatasetTriplet_getitem randbelow self id0 g = Inl e"
proof (cases "fixed_triplets self")
  case None
  with assms show ?thesis by (auto simp: MolDatasetTriplet_getitem_def)
next
  case (Some c)
  obtain a p n l where c: "c = (a, p, n, l)" by (cases c)
  have "\<exists>e. attempt (getitem a id0) (\<lambda>anchor_mf.
             attempt (getitem p id0) (\<lambda>positive_mf.
             attempt (getitem n id0) (\<lambda>negative_mf.
             attempt (float_getitem l id0) (\<lambda>anchor_label.
               Inr ((anchor_mf, positive_mf, negative_mf, anchor_label), g))))) = Inl e"
    by (rule attempt_fails, rule attempt_fails, rule attempt_fails)
      (simp add: float_getitem_def)
  with assms Some c show ?thesis
    by (auto simp: MolDatasetTriplet_getitem_def)
qed

section \<open>The evaluation datasets of the factory\<close>

text \<open>
  C1. \<^verbatim>\<open>get_dataset\<close> with a splitter and the triplet loss is to return validation and test
  datasets with fixed triplets for the seed 123. Run on three splits holding the example
  store, it returns nothing: building the validation dataset raises the constructor's
  own exception, since the call binds 123 to \<^verbatim>\<open>use_fixed_triplets\<close> next to
  \<^verbatim>\<open>oversample = True\<close>. Lemma \<open>get_dataset_triplet_never_returns\<close> shows the same for
  every input with a splitter and the triplet loss.
\<close>

theorem get_dataset_eval_datasets_raise:
  "get_dataset counter_ops no_entropy loader_3_1 ''hiv'' (Some ()) 4 2048 True False False None =
     Inl (Exception
       ''MolDatasetTriplet initiated with wrong parameters: oversample(value: True) and use_fixed_triplets(value: 123)'')"
  by code_simp

section \<open>Reading a triplet\<close>

text \<open>
  C2. A training dataset without fixed triplets is to draw its positive and negative on
  the fly, as an evaluation dataset does. The training dataset built from the example
  store fails at index 0 instead: the test \<^verbatim>\<open>self.train == False\<close> sends it to the cache,
  an attribute that was never assigned. The evaluation dataset over the same store
  answers. Lemma \<open>training_getitem_fails\<close> shows the failure for every such dataset and
  index.
\<close>

theorem training_getitem_attribute_error:
  "MolDatasetTriplet_init counter_ops 0 store_3_1 True False (PyBool False) None = Inr training_3_1
   \<and> MolDatasetTriplet_getitem counter_randbelow training_3_1 0 0 = Inl AttributeError
   \<and> MolDatasetTriplet_getitem counter_randbelow eval_3_1 0 0 =
       Inr (([1, 0], [1, 0], [0, 0], 0), 2)"
  by code_simp

text \<open>
  C3. A dataset with fixed triplets is to return row \<open>i\<close> of its cache. The cache built
  from the example store for the seed 5 holds the features, the rows drawn, and the label
  1 of the last record as one float; reading index 0 subscripts that float and fails.
  Lemma \<open>cached_getitem_fails\<close> shows that no read through the cache returns.
\<close>

theorem fixed_getitem_type_error:
  "MolDatasetTriplet_init counter_ops 0 store_3_1 False False (PyBool True) (Some 5) =
     Inr fixed_eval_3_1
   \<and> fixed_triplets fixed_eval_3_1 =
       Some ([[1, 0], [0, 1], [1, 1], [0, 0]], [[1, 1], [0, 1], [1, 0], [0, 0]],
             [[0, 0], [0, 0], [0, 0], [1, 0]], 1)
   \<and> MolDatasetTriplet_getitem counter_randbelow fixed_eval_3_1 0 0 = Inl TypeError"
  by code_simp

section \<open>Oversampling\<close>

text \<open>
  C7. Oversampling the example store (three records labelled 0, one labelled 1) is to
  give a store of six records. The constructor raises a \<^verbatim>\<open>TypeError\<close> instead: the SMILES
  strings are a numpy array, which \<^verbatim>\<open>torch.cat\<close> refuses, and no field has been replaced
  by then. Lemma \<open>oversample_never_constructs\<close> shows that the branch returns for no store.
\<close>

theorem oversample_type_error:
  "MolDatasetTriplet_init counter_ops 0 store_3_1 True True (PyBool False) None = Inl TypeError"
  by code_simp

section \<open>Construction errors\<close>

text \<open>
  C5. Constructing a triplet dataset with \<open>oversample = True\<close> and
  \<open>use_fixed_triplets = True\<close> raises the module's own exception, whose message names
  both flags with their values, whatever the store, the training flag and the seed are:
  also for a store on which building the cache would fail and for a seed the generator
  would refuse, so nothing of either has run.
\<close>

theorem oversample_with_fixed_triplets_raises:
  "MolDatasetTriplet_init np fresh dc_dataset tr True (PyBool True) seed =
     Inl (Exception
       ''MolDatasetTriplet initiated with wrong parameters: oversample(value: True) and use_fixed_triplets(value: True)'')"
  by (simp add: MolDatasetTriplet_init_def config_message_def Let_def)

section \<open>The label partitions\<close>

text \<open>
  A row number is listed by \<open>nonzero_rows\<close> when its row of the mask holds a true entry.
\<close>

lemma set_nonzero_rows: "set (nonzero_rows m) = {i. i < length m \<and> True \<in> set (m ! i)}"
  by (auto simp: nonzero_rows_def filter_empty_conv)

lemma binary_partition:
  assumes "list_all (\<lambda>row. row = [0] \<or> row = [1]) y" and "i < length y"
  shows "(i \<in> set (nonzero_rows (eq_mask y 0))) \<noteq> (i \<in> set (nonzero_rows (eq_mask y 1)))"
proof -
  from assms have "y ! i = [0] \<or> y ! i = [1]"
    by (simp add: list_all_length)
  with assms(2) show ?thesis
    by (auto simp: set_nonzero_rows eq_mask_def)
qed

lemma partition_range: "set (nonzero_rows (eq_mask y c)) \<subseteq> {0..<length y}"
  by (auto simp: set_nonzero_rows eq_mask_def)

lemma binary_partition_union:
  assumes "list_all (\<lambda>row. row = [0] \<or> row = [1]) y"
  shows "set (nonzero_rows (eq_mask y 0)) \<union> set (nonzero_rows (eq_mask y 1)) = {0..<length y}"
proof
  show "set (nonzero_rows (eq_mask y 0)) \<union> set (nonzero_rows (eq_mask y 1)) \<subseteq> {0..<length y}"
    using partition_range by blast
  show "{0..<length y} \<subseteq> set (nonzero_rows (eq_mask y 0)) \<union> set (nonzero_rows (eq_mask y 1))"
    using binary_partition [OF assms] by auto
qed

text \<open>What a successful construction leaves in the fields.\<close>

lemma constructed_fields:
  assumes "MolDatasetTriplet_init np fresh dc_dataset tr ov uf seed = Inr self"
  shows "tensor_X self = dc_X dc_dataset \<and> tensor_y self = dc_y dc_dataset
       \<and> smiles self = dc_ids dc_dataset \<and> train self = tr \<and> oversample self = ov
       \<and> \<not> ov
       \<and> use_fixed_triplets self = uf \<and> seed_fixed_triplets self = seed
       \<and> indices_0 self = nonzero_rows (eq_mask (dc_y dc_dataset) 0)
       \<and> indices_1 self = nonzero_rows (eq_mask (dc_y dc_dataset) 1)"
proof (cases "truthy uf")
  case False
  with assms oversample_never_constructs [of uf np fresh dc_dataset tr seed]
  have "\<not> ov" by (cases ov) auto
  with assms False show ?thesis
    by (auto simp: MolDatasetTriplet_init_def Let_def MolDataset_init_def
        MolDatasetTriplet.defs MolDataset.defs)
next
  case True
  with assms have ov: "\<not> ov"
    by (cases ov) (auto simp: MolDatasetTriplet_init_def Let_def)
  with assms True show ?thesis
    by (auto simp: MolDatasetTriplet_init_def Let_def MolDataset_init_def
        MolDatasetTriplet.defs MolDataset.defs attempt_eq_Inr)
qed

lemma binary_partition_labels:
  assumes "list_all (\<lambda>row. row = [0] \<or> row = [1]) y" and "i < length y"
  shows "(i \<in> set (nonzero_rows (eq_mask y 0))) = (y ! i = [0])"
    and "(i \<in> set (nonzero_rows (eq_mask y 1))) = (y ! i = [1])"
proof -
  from assms have "y ! i = [0] \<or> y ! i = [1]"
    by (simp add: list_all_length)
  with assms(2) show "(i \<in> set (nonzero_rows (eq_mask y 0))) = (y ! i = [0])"
    and "(i \<in> set (nonzero_rows (eq_mask y 1))) = (y ! i = [1])"
    by (auto simp: set_nonzero_rows eq_mask_def)
qed

text \<open>
  C9. For every dataset the constructor returns over a store whose labels are all binary
  (every row of the store's \<^verbatim>\<open>y\<close> is the single label 0 or the single label 1), the
  dataset holds the labels of that store, every index \<open>i\<close> of the store lies in exactly one
  of \<open>indices_0\<close> and \<open>indices_1\<close>, namely in \<open>indices_0\<close> when the store's label \<open>i\<close> is 0
  and in \<open>indices_1\<close> when it is 1, and the two partitions together are all the indices of
  the store. The partitions are computed by the same expression wherever the constructor
  computes them; lemmas \<open>binary_partition\<close>, \<open>binary_partition_labels\<close> and
  \<open>binary_partition_union\<close> state the property of that expression for any binary label
  array.
\<close>

theorem partitions_of_store:
  assumes "MolDatasetTriplet_init np fresh dc_dataset tr ov uf seed = Inr self"
    and "list_all (\<lambda>row. row = [0] \<or> row = [1]) (dc_y dc_dataset)"
  shows "tensor_y self = dc_y dc_dataset
       \<and> (\<forall>i < length (dc_y dc_dataset).
             (i \<in> set (indices_0 self)) \<noteq> (i \<in> set (indices_1 self))
           \<and> (i \<in> set (indices_0 self)) = (dc_y dc_dataset ! i = [0])
           \<and> (i \<in> set (indices_1 self)) = (dc_y dc_dataset ! i = [1]))
       \<and> set (indices_0 self) \<union> set (indices_1 self) = {0..<length (dc_y dc_dataset)}"
  using constructed_fields [OF assms(1)] binary_partition [OF assms(2)]
    binary_partition_labels [OF assms(2)] binary_partition_union [OF assms(2)]
  by simp

theorem partitions_of_store_witness:
  "MolDatasetTriplet_init counter_ops 0 store_3_1 False False (PyBool False) None = Inr eval_3_1
   \<and> list_all (\<lambda>row. row = [0] \<or> row = [1]) (dc_y store_3_1)
   \<and> tensor_y eval_3_1 = dc_y store_3_1
   \<and> ((3 \<in> set (indices_0 eval_3_1)) \<noteq> (3 \<in> set (indices_1 eval_3_1)))
   \<and> ((3 \<in> set (indices_1 eval_3_1)) = (dc_y store_3_1 ! 3 = [1]))
   \<and> set (indices_0 eval_3_1) \<union> set (indices_1 eval_3_1) = {0..<length (dc_y store_3_1)}"
proof -
  have built: "MolDatasetTriplet_init counter_ops 0 store_3_1 False False (PyBool False) None
      = Inr eval_3_1"
    by code_simp
  have binary: "list_all (\<lambda>row. row = [0] \<or> row = [1]) (dc_y store_3_1)"
    by (simp add: store_3_1_def)
  have len: "3 < length (dc_y store_3_1)"
    by (simp add: store_3_1_def)
  from partitions_of_store [OF built binary] len built binary
  show ?thesis by blast
qed

section \<open>The class weights\<close>

text \<open>Rounding a fraction whose value is a natural number below \<open>2^p\<close> leaves the value.\<close>

lemma bit_length_le: "k < 2 ^ p \<Longrightarrow> bit_length k \<le> p"
proof (induction p arbitrary: k)
  case 0
  then show ?case by (simp add: bit_length.simps)
next
  case (Suc p)
  show ?case
  proof (cases "k = 0")
    case True
    then show ?thesis by (simp add: bit_length.simps)
  next
    case False
    from Suc.prems have "k div 2 < 2 ^ p" by auto
    from Suc.IH [OF this] False show ?thesis
      by (subst bit_length.simps) simp
  qed
qed

lemma round_half_even_exact: "0 < b \<Longrightarrow> round_half_even (n * b) b = n"
  by (simp add: round_half_even_def)

lemma float_round_exact:
  assumes "0 < b" and "k < 2 ^ p"
  shows "\<exists>j. float_round p (k * b, b) = (k * 2 ^ j, 2 ^ j)"
proof (cases "k = 0")
  case True
  then have "float_round p (k * b, b) = (k * 2 ^ 0, 2 ^ 0)"
    by (simp add: float_round_def)
  then show ?thesis ..
next
  case False
  with assms(1) have ab: "b \<le> k * b" and a0: "k * b \<noteq> 0" by auto
  from assms(1) have fl: "floor_log2 (k * b) b = int (bit_length k) - 1"
    using ab by (simp add: floor_log2_def)
  from bit_length_le [OF assms(2)] have le: "bit_length k \<le> p" .
  define j where "j = p - bit_length k"
  have u: "floor_log2 (k * b) b - (int p - 1) = - int j"
    using fl le by (simp add: j_def)
  show ?thesis
  proof (cases "j = 0")
    case True
    with u a0 assms(1) have "float_round p (k * b, b) = (k * 2 ^ 0, 2 ^ 0)"
      by (simp add: float_round_def Let_def round_half_even_exact)
    then show ?thesis ..
  next
    case False
    have "round_half_even (k * b * 2 ^ j) b = k * 2 ^ j"
      using round_half_even_exact [OF assms(1), of "k * 2 ^ j"] by (simp add: ac_simps)
    with u a0 False have "float_round p (k * b, b) = (k * 2 ^ j, 2 ^ j)"
      by (simp add: float_round_def Let_def)
    then show ?thesis ..
  qed
qed

lemma fraction_scaled: "fraction (k * 2 ^ j, 2 ^ j) = real k"
  by (simp add: fraction_def)

lemma float32_of_exact:
  assumes "0 < b" and "k < 2 ^ 24"
  shows "fraction (float_round 24 (float_round 53 (k * b, b))) = real k"
proof -
  from assms(2) have "k < 2 ^ 53"
    by (rule less_trans) simp
  from float_round_exact [OF assms(1) this] obtain j where
    "float_round 53 (k * b, b) = (k * 2 ^ j, 2 ^ j)" ..
  moreover from float_round_exact [of "2 ^ j" k 24] assms(2) obtain i where
    "float_round 24 (k * 2 ^ j, 2 ^ j) = (k * 2 ^ i, 2 ^ i)" by auto
  ultimately show ?thesis by (simp add: fraction_scaled)
qed

lemma float32_one: "fraction (float_round 24 (Suc 0, Suc 0)) = 1"
proof -
  from float_round_exact [of "Suc 0" "Suc 0" 24] obtain j where
    "float_round 24 (Suc 0, Suc 0) = (Suc 0 * 2 ^ j, 2 ^ j)" by auto
  then show ?thesis using fraction_scaled [of "Suc 0" j] by simp
qed

lemma get_pos_weights_unfold:
  assumes "indices_1 self \<noteq> []"
  shows "get_pos_weights self =
     Inr [1, fraction (float_round 24
               (float_round 53 (length (indices_0 self), length (indices_1 self))))]"
  using assms by (simp add: get_pos_weights_def true_div_def torch_tensor_def float32_one)

text \<open>
  C8, as the code has it. For every triplet dataset whose partition \<open>indices_1\<close> is not
  empty, \<^verbatim>\<open>get_pos_weights\<close> returns the float32 tensor of 1 and of the quotient of the
  number of indices in \<open>indices_0\<close> by the number in \<open>indices_1\<close>, rounded to a float by the
  division and to float32 by the tensor. Whenever the number in \<open>indices_1\<close> divides
  the number in \<open>indices_0\<close> with a quotient below \<open>2^24\<close>, the second weight is exactly
  that quotient: for eighty records labelled 0 and twenty labelled 1 the weights are 1
  and 4.
\<close>

theorem get_pos_weights_float32:
  assumes "indices_1 self \<noteq> []"
  shows "get_pos_weights self =
           Inr [1, fraction (float_round 24
                     (float_round 53 (length (indices_0 self), length (indices_1 self))))]
       \<and> (\<forall>k. length (indices_0 self) = k * length (indices_1 self) \<and> k < 2 ^ 24 \<longrightarrow>
             get_pos_weights self
               = Inr [1, real (length (indices_0 self)) / real (length (indices_1 self))])"
proof -
  from assms have b: "0 < length (indices_1 self)" by simp
  have "fraction (float_round 24
            (float_round 53 (length (indices_0 self), length (indices_1 self))))
        = real (length (indices_0 self)) / real (length (indices_1 self))"
    if "length (indices_0 self) = k * length (indices_1 self)" and "k < 2 ^ 24" for k
    using float32_of_exact [OF b that(2)] that(1) b by simp
  with get_pos_weights_unfold [OF assms] show ?thesis by simp
qed

lemma built_80_20:
  "MolDatasetTriplet_init counter_ops 0 store_80_20 False False (PyBool False) None = Inr eval_80_20"
  by code_simp

theorem get_pos_weights_80_20:
  "MolDatasetTriplet_init counter_ops 0 store_80_20 False False (PyBool False) None = Inr eval_80_20
   \<and> indices_1 eval_80_20 \<noteq> []
   \<and> length (indices_0 eval_80_20) = 4 * length (indices_1 eval_80_20)
   \<and> get_pos_weights eval_80_20 = Inr [1, 4]"
proof -
  have ne: "indices_1 eval_80_20 \<noteq> []"
    by (simp add: eval_80_20_def)
  have len: "length (indices_0 eval_80_20) = 80" "length (indices_1 eval_80_20) = 20"
    by (simp_all add: eval_80_20_def)
  then have div: "length (indices_0 eval_80_20) = 4 * length (indices_1 eval_80_20)
      \<and> (4::nat) < 2 ^ 24" by simp
  with get_pos_weights_float32 [OF ne] have
    "get_pos_weights eval_80_20
       = Inr [1, real (length (indices_0 eval_80_20)) / real (length (indices_1 eval_80_20))]"
    by blast
  with len have "get_pos_weights eval_80_20 = Inr [1, 4]" by simp
  with ne div built_80_20 show ?thesis by simp
qed

text \<open>
  C8 as stated, with exactly the quotient for every dataset, fails: for one record
  labelled 0 and three labelled 1 the second weight is the float32 nearest to a third,
  \<open>11184811 / 33554432\<close>.
\<close>

lemma built_1_3:
  "MolDatasetTriplet_init counter_ops 0 store_1_3 False False (PyBool False) None = Inr eval_1_3"
  by code_simp

lemma float64_third: "float_round 53 (1, 3) = (6004799503160661, 18014398509481984)"
  by (simp add: float_round_def floor_log2_def round_half_even_def bit_length.simps Let_def)

lemma float32_third:
  "float_round 24 (6004799503160661, 18014398509481984) = (11184811, 33554432)"
  by (simp add: float_round_def floor_log2_def round_half_even_def bit_length.simps Let_def)

theorem get_pos_weights_counterexample:
  "MolDatasetTriplet_init counter_ops 0 store_1_3 False False (PyBool False) None = Inr eval_1_3
   \<and> indices_1 eval_1_3 \<noteq> []
   \<and> get_pos_weights eval_1_3 = Inr [1, 11184811 / 33554432]
   \<and> get_pos_weights eval_1_3
       \<noteq> Inr [1, real (length (indices_0 eval_1_3)) / real (length (indices_1 eval_1_3))]"
proof -
  have ne: "indices_1 eval_1_3 \<noteq> []"
    by (simp add: eval_1_3_def)
  have len: "length (indices_0 eval_1_3) = 1" "length (indices_1 eval_1_3) = 3"
    by (simp_all add: eval_1_3_def)
  from get_pos_weights_unfold [OF ne] have
    "get_pos_weights eval_1_3 = Inr [1, fraction (float_round 24 (float_round 53 (1, 3)))]"
    by (simp only: len)
  then have w: "get_pos_weights eval_1_3 = Inr [1, 11184811 / 33554432]"
    by (simp only: float64_third float32_third fraction_def fst_conv snd_conv) simp
  with len ne built_1_3 show ?thesis by simp
qed

section \<open>The fixed-triplet cache\<close>

text \<open>
  With an integer seed, the cache and the index lists behind it depend on the seed, the
  labels, the partitions and the features only.
\<close>

lemma fixed_indices_cong:
  assumes "seed_fixed_triplets a = Some s" "seed_fixed_triplets b = Some s"
    "indices_0 a = indices_0 b" "indices_1 a = indices_1 b" "tensor_y a = tensor_y b"
  shows "fixed_indices np f1 a = fixed_indices np f2 b"
  using assms by (simp add: fixed_indices_def RandomState_def)

lemma get_fixed_dataset_cong:
  assumes "seed_fixed_triplets a = Some s" "seed_fixed_triplets b = Some s"
    "indices_0 a = indices_0 b" "indices_1 a = indices_1 b" "tensor_y a = tensor_y b"
    "tensor_X a = tensor_X b"
  shows "get_fixed_dataset np f1 a = get_fixed_dataset np f2 b"
  using assms fixed_indices_cong [OF assms(1-5), of np f1 f2]
  by (simp add: get_fixed_dataset_def cong: option.case_cong)

lemma refresh_result:
  "refresh_fixed_triplets np fresh self s = Inr d \<longleftrightarrow>
     (\<exists>cache. get_fixed_dataset np fresh (self\<lparr>seed_fixed_triplets := Some s\<rparr>) = Inr cache
        \<and> d = self\<lparr>seed_fixed_triplets := Some s, fixed_triplets := Some cache\<rparr>)"
  by (auto simp: refresh_fixed_triplets_def Let_def attempt_eq_Inr)

lemma fixed_construction:
  assumes "MolDatasetTriplet_init np fresh dc_dataset tr ov uf seed = Inr self" and "truthy uf"
  shows "\<exists>cache. get_fixed_dataset np fresh (self\<lparr>fixed_triplets := None\<rparr>) = Inr cache
           \<and> fixed_triplets self = Some cache"
proof -
  from assms have ov: "\<not> ov"
    by (cases ov) (auto simp: MolDatasetTriplet_init_def Let_def)
  with assms show ?thesis
    by (auto simp: MolDatasetTriplet_init_def Let_def attempt_eq_Inr MolDataset_init_def
        MolDatasetTriplet.defs MolDataset.defs)
qed

lemma get_fixed_dataset_indices:
  "get_fixed_dataset np fresh self = Inr cache \<Longrightarrow> \<exists>st. fixed_indices np fresh self = Inr st"
  by (auto simp: get_fixed_dataset_def attempt_eq_Inr)

text \<open>
  C6, as the code has it. For an integer seed, building the fixed-triplet cache is a
  function of the store and the seed. (a) Two datasets built in fixed-triplet mode from
  the same store with the same integer seed \<open>s\<close> have the same positive and negative
  index lists and the same cache, whatever their training flags, the values given for
  the (true) flag, and the states the operating system would give an unseeded generator.
  (b) After \<^verbatim>\<open>refresh_fixed_triplets(s')\<close> has returned, calling it again with the same seed
  returns the same dataset, cache included.
\<close>

theorem fixed_cache_deterministic:
  assumes "MolDatasetTriplet_init np fresh1 dc_dataset tr1 ov1 uf1 (Some s) = Inr self1"
    and "MolDatasetTriplet_init np fresh2 dc_dataset tr2 ov2 uf2 (Some s) = Inr self2"
    and "truthy uf1" and "truthy uf2"
    and "refresh_fixed_triplets np fresh3 self s' = Inr self'"
  shows "(\<exists>g positive_indices negative_indices anchor_label.
            fixed_indices np fresh1 self1 = Inr (g, positive_indices, negative_indices, anchor_label)
          \<and> fixed_indices np fresh2 self2 = Inr (g, positive_indices, negative_indices, anchor_label))
       \<and> fixed_triplets self1 = fixed_triplets self2
       \<and> refresh_fixed_triplets np fresh4 self' s' = Inr self'"
proof -
  note f1 = constructed_fields [OF assms(1)] and f2 = constructed_fields [OF assms(2)]
  from fixed_construction [OF assms(1,3)] obtain c1 where
    c1: "get_fixed_dataset np fresh1 (self1\<lparr>fixed_triplets := None\<rparr>) = Inr c1"
      "fixed_triplets self1 = Some c1" by blast
  from fixed_construction [OF assms(2,4)] obtain c2 where
    c2: "get_fixed_dataset np fresh2 (self2\<lparr>fixed_triplets := None\<rparr>) = Inr c2"
      "fixed_triplets self2 = Some c2" by blast
  have "get_fixed_dataset np fresh1 (self1\<lparr>fixed_triplets := None\<rparr>)
      = get_fixed_dataset np fresh2 (self2\<lparr>fixed_triplets := None\<rparr>)"
    by (rule get_fixed_dataset_cong [where s = s]) (simp_all add: f1 f2)
  with c1 c2 have same: "fixed_triplets self1 = fixed_triplets self2" by simp
  have "get_fixed_dataset np fresh1 self1 = get_fixed_dataset np fresh1 (self1\<lparr>fixed_triplets := None\<rparr>)"
    by (rule get_fixed_dataset_cong [where s = s]) (simp_all add: f1)
  with c1 obtain st where st: "fixed_indices np fresh1 self1 = Inr st"
    using get_fixed_dataset_indices by metis
  have "fixed_indices np fresh1 self1 = fixed_indices np fresh2 self2"
    by (rule fixed_indices_cong [where s = s]) (simp_all add: f1 f2)
  with st have idx: "\<exists>g positive_indices negative_indices anchor_label.
            fixed_indices np fresh1 self1 = Inr (g, positive_indices, negative_indices, anchor_label)
          \<and> fixed_indices np fresh2 self2 = Inr (g, positive_indices, negative_indices, anchor_label)"
    by (cases st) auto
  from assms(5) obtain cache where
    cache: "get_fixed_dataset np fresh3 (self\<lparr>seed_fixed_triplets := Some s'\<rparr>) = Inr cache"
      "self' = self\<lparr>seed_fixed_triplets := Some s', fixed_triplets := Some cache\<rparr>"
    by (auto simp: refresh_result)
  have "get_fixed_dataset np fresh4 (self'\<lparr>seed_fixed_triplets := Some s'\<rparr>)
      = get_fixed_dataset np fresh3 (self\<lparr>seed_fixed_triplets := Some s'\<rparr>)"
    by (rule get_fixed_dataset_cong [where s = s']) (simp_all add: cache(2))
  with cache have again: "refresh_fixed_triplets np fresh4 self' s' = Inr self'"
    by (simp add: refresh_result)
  from idx same again show ?thesis by blast
qed

theorem fixed_cache_deterministic_witness:
  "MolDatasetTriplet_init counter_ops 0 store_3_1 False False (PyBool True) (Some 5) = Inr fixed_eval_3_1
   \<and> MolDatasetTriplet_init counter_ops 7 store_3_1 True False (PyInt 1) (Some 5)
       = Inr (fixed_eval_3_1\<lparr>train := True, use_fixed_triplets := PyInt 1\<rparr>)
   \<and> refresh_fixed_triplets counter_ops 0 fixed_training_3_1 1 = Inr refreshed_seed_1
   \<and> fixed_indices counter_ops 0 fixed_eval_3_1 = Inr (13, [2, 1, 0, 3], [3, 3, 3, 0], Some 1)
   \<and> fixed_indices counter_ops 7 (fixed_eval_3_1\<lparr>train := True, use_fixed_triplets := PyInt 1\<rparr>)
       = Inr (13, [2, 1, 0, 3], [3, 3, 3, 0], Some 1)
   \<and> refresh_fixed_triplets counter_ops 9 refreshed_seed_1 1 = Inr refreshed_seed_1"
proof -
  have b1: "MolDatasetTriplet_init counter_ops 0 store_3_1 False False (PyBool True) (Some 5)
      = Inr fixed_eval_3_1"
    by code_simp
  have b2: "MolDatasetTriplet_init counter_ops 7 store_3_1 True False (PyInt 1) (Some 5)
       = Inr (fixed_eval_3_1\<lparr>train := True, use_fixed_triplets := PyInt 1\<rparr>)"
    by code_simp
  have r: "refresh_fixed_triplets counter_ops 0 fixed_training_3_1 1 = Inr refreshed_seed_1"
    by code_simp
  have i1: "fixed_indices counter_ops 0 fixed_eval_3_1 = Inr (13, [2, 1, 0, 3], [3, 3, 3, 0], Some 1)"
    by code_simp
  have t1: "truthy (PyBool True)" and t2: "truthy (PyInt 1)" by simp_all
  from fixed_cache_deterministic [OF b1 b2 t1 t2 r, of 9] b1 b2 r i1
  show ?thesis by auto
qed

text \<open>
  C6 as stated, for every seed the constructor takes, fails at the seed \<^verbatim>\<open>None\<close>, its
  default: the generator then starts from the state the operating system provides, and
  two datasets built from the example store differ in their index lists and caches when
  that state is 0 for the one and 1 for the other.
\<close>

theorem unseeded_cache_counterexample:
  "MolDatasetTriplet_init counter_ops 0 store_3_1 False False (PyBool True) None = Inr unseeded_0
   \<and> MolDatasetTriplet_init counter_ops 1 store_3_1 False False (PyBool True) None = Inr unseeded_1
   \<and> fixed_indices counter_ops 0 unseeded_0 = Inr (8, [0, 2, 1, 3], [3, 3, 3, 1], Some 1)
   \<and> fixed_indices counter_ops 1 unseeded_1 = Inr (9, [1, 0, 2, 3], [3, 3, 3, 2], Some 1)
   \<and> fixed_triplets unseeded_0 \<noteq> fixed_triplets unseeded_1"
  by code_simp

section \<open>Refreshing the cache\<close>

lemma choice_ok:
  assumes "a \<noteq> []"
  shows "\<exists>p g'. choice np g a = Inr (p, g') \<and> p \<in> set a"
  using assms by (simp add: choice_def)

lemma draw_fixed_ok:
  assumes "i0 \<noteq> []" and "i1 \<noteq> []" and "list_all (\<lambda>row. row \<noteq> []) rows"
  shows "\<exists>g' ps ns l. draw_fixed np i0 i1 rows (g, pos, neg, lab) = Inr (g', ps, ns, l)
           \<and> set ps \<subseteq> set pos \<union> set i0 \<union> set i1
           \<and> set ns \<subseteq> set neg \<union> set i0 \<union> set i1
           \<and> (rows \<noteq> [] \<or> lab \<noteq> None \<longleftrightarrow> l \<noteq> None)"
  using assms(3)
proof (induction rows arbitrary: g pos neg lab)
  case Nil
  then show ?case by auto
next
  case (Cons row rows)
  then obtain v vs where row: "row = v # vs" by (cases row) auto
  show ?case
  proof (cases "v = 1")
    case True
    from choice_ok [OF assms(2), of np g] obtain p g1 where
      p: "choice np g i1 = Inr (p, g1)" "p \<in> set i1" by blast
    from choice_ok [OF assms(1), of np g1] obtain n g2 where
      n: "choice np g1 i0 = Inr (n, g2)" "n \<in> set i0" by blast
    from Cons.prems have "list_all (\<lambda>row. row \<noteq> []) rows" by simp
    from Cons.IH [OF this, of g2 "pos @ [p]" "neg @ [n]" "Some v"]
    show ?thesis using True row p n by auto
  next
    case False
    from choice_ok [OF assms(1), of np g] obtain p g1 where
      p: "choice np g i0 = Inr (p, g1)" "p \<in> set i0" by blast
    from choice_ok [OF assms(2), of np g1] obtain n g2 where
      n: "choice np g1 i1 = Inr (n, g2)" "n \<in> set i1" by blast
    from Cons.prems have "list_all (\<lambda>row. row \<noteq> []) rows" by simp
    from Cons.IH [OF this, of g2 "pos @ [p]" "neg @ [n]" "Some v"]
    show ?thesis using False row p n by auto
  qed
qed

lemma take_rows_ok:
  "set indices \<subseteq> {0..<length a} \<Longrightarrow> \<exists>rows. take_rows a indices = Inr rows"
  by (auto simp: take_rows_def list_all_iff)

lemma get_fixed_dataset_ok:
  assumes "tensor_y self \<noteq> []" and "list_all (\<lambda>row. row \<noteq> []) (tensor_y self)"
    and "indices_0 self \<noteq> []" and "indices_1 self \<noteq> []"
    and "list_all (\<lambda>i. i < length (tensor_X self)) (indices_0 self @ indices_1 self)"
    and "seed_fixed_triplets self = Some s" and "0 \<le> s" and "s < 2 ^ 32"
  shows "\<exists>cache. get_fixed_dataset np fresh self = Inr cache"
proof -
  from draw_fixed_ok [OF assms(3,4,2), of np "seed_state np s" "[]" "[]" None]
  obtain g' ps ns l where
    d: "draw_fixed np (indices_0 self) (indices_1 self) (tensor_y self)
          (seed_state np s, [], [], None) = Inr (g', ps, ns, l)"
    and ps: "set ps \<subseteq> set (indices_0 self) \<union> set (indices_1 self)"
    and ns: "set ns \<subseteq> set (indices_0 self) \<union> set (indices_1 self)"
    and l: "l \<noteq> None"
    using assms(1) by auto
  from assms(5) have "set (indices_0 self) \<union> set (indices_1 self) \<subseteq> {0..<length (tensor_X self)}"
    by (auto simp: list_all_iff)
  with ps ns obtain pm nm where
    "take_rows (tensor_X self) ps = Inr pm" "take_rows (tensor_X self) ns = Inr nm"
    using take_rows_ok [of ps "tensor_X self"] take_rows_ok [of ns "tensor_X self"] by blast
  with d l assms(6-8) show ?thesis
    by (auto simp: get_fixed_dataset_def fixed_indices_def RandomState_def)
qed

lemma getitem_sampling_frame:
  assumes "\<not> truthy (use_fixed_triplets self)" and "train self = False"
  shows "MolDatasetTriplet_getitem randbelow
           (self\<lparr>seed_fixed_triplets := s, fixed_triplets := c\<rparr>) id0 g
         = MolDatasetTriplet_getitem randbelow self id0 g"
  using assms by (simp add: MolDatasetTriplet_getitem_def cong: if_cong)

text \<open>
  C10, as the code has it. \<^verbatim>\<open>refresh_fixed_triplets(s)\<close> returns for a dataset whose store is
  not empty and has a label in every row, whose two partitions are not empty and hold row
  numbers of \<open>X\<close>, and for a seed \<open>0 \<le> s < 2^32\<close>; whether the dataset was built with fixed
  triplets does not matter. The dataset it leaves differs from the one before in the stored
  seed and the cache only: features, labels, SMILES, both partitions and the flags \<open>train\<close>
  and \<open>use_fixed_triplets\<close> are the same, and on an evaluation dataset without fixed
  triplets every read gives what it gave before from the same state of the random source.
\<close>

theorem refresh_frame:
  assumes "tensor_y self \<noteq> []" and "list_all (\<lambda>row. row \<noteq> []) (tensor_y self)"
    and "indices_0 self \<noteq> []" and "indices_1 self \<noteq> []"
    and "list_all (\<lambda>i. i < length (tensor_X self)) (indices_0 self @ indices_1 self)"
    and "0 \<le> s" and "s < 2 ^ 32"
  shows "\<exists>self' cache.
           refresh_fixed_triplets np fresh self s = Inr self'
         \<and> self' = self\<lparr>seed_fixed_triplets := Some s, fixed_triplets := Some cache\<rparr>
         \<and> tensor_X self' = tensor_X self \<and> tensor_y self' = tensor_y self
         \<and> smiles self' = smiles self
         \<and> indices_0 self' = indices_0 self \<and> indices_1 self' = indices_1 self
         \<and> train self' = train self \<and> use_fixed_triplets self' = use_fixed_triplets self
         \<and> (\<not> truthy (use_fixed_triplets self) \<and> train self = False \<longrightarrow>
              MolDatasetTriplet_getitem randbelow self' id0 g
                = MolDatasetTriplet_getitem randbelow self id0 g)"
proof -
  have "\<exists>cache. get_fixed_dataset np fresh (self\<lparr>seed_fixed_triplets := Some s\<rparr>) = Inr cache"
    by (rule get_fixed_dataset_ok [where s = s]) (use assms in simp_all)
  then obtain cache where
    "get_fixed_dataset np fresh (self\<lparr>seed_fixed_triplets := Some s\<rparr>) = Inr cache" ..
  then have "refresh_fixed_triplets np fresh self s
      = Inr (self\<lparr>seed_fixed_triplets := Some s, fixed_triplets := Some cache\<rparr>)"
    by (simp add: refresh_result)
  then show ?thesis
    by (intro exI [of _ "self\<lparr>seed_fixed_triplets := Some s, fixed_triplets := Some cache\<rparr>"]
        exI [of _ cache]) (simp add: getitem_sampling_frame)
qed

theorem refresh_frame_witness:
  "refresh_fixed_triplets counter_ops 0 eval_3_1 7 =
     Inr (eval_3_1\<lparr>seed_fixed_triplets := Some 7,
           fixed_triplets :=
             Some ([[1, 0], [0, 1], [1, 1], [0, 0]], [[0, 1], [1, 0], [1, 1], [0, 0]],
                   [[0, 0], [0, 0], [0, 0], [1, 1]], 1)\<rparr>)
   \<and> MolDatasetTriplet_getitem counter_randbelow
       (eval_3_1\<lparr>seed_fixed_triplets := Some 7,
           fixed_triplets :=
             Some ([[1, 0], [0, 1], [1, 1], [0, 0]], [[0, 1], [1, 0], [1, 1], [0, 0]],
                   [[0, 0], [0, 0], [0, 0], [1, 1]], 1)\<rparr>) 2 5
       = MolDatasetTriplet_getitem counter_randbelow eval_3_1 2 5
   \<and> MolDatasetTriplet_getitem counter_randbelow eval_3_1 2 5 = Inr (([1, 1], [1, 1], [0, 0], 0), 7)"
proof -
  have h1: "tensor_y eval_3_1 \<noteq> []" and h2: "list_all (\<lambda>row. row \<noteq> []) (tensor_y eval_3_1)"
    and h3: "indices_0 eval_3_1 \<noteq> []" and h4: "indices_1 eval_3_1 \<noteq> []"
    and h5: "list_all (\<lambda>i. i < length (tensor_X eval_3_1)) (indices_0 eval_3_1 @ indices_1 eval_3_1)"
    by (simp_all add: eval_3_1_def)
  have h6: "(0::int) \<le> 7" and h7: "(7::int) < 2 ^ 32" by simp_all
  have nf: "\<not> truthy (use_fixed_triplets eval_3_1) \<and> train eval_3_1 = False"
    by (simp add: eval_3_1_def)
  have r: "refresh_fixed_triplets counter_ops 0 eval_3_1 7 =
     Inr (eval_3_1\<lparr>seed_fixed_triplets := Some 7,
           fixed_triplets :=
             Some ([[1, 0], [0, 1], [1, 1], [0, 0]], [[0, 1], [1, 0], [1, 1], [0, 0]],
                   [[0, 0], [0, 0], [0, 0], [1, 1]], 1)\<rparr>)"
    by code_simp
  have v: "MolDatasetTriplet_getitem counter_randbelow eval_3_1 2 5
      = Inr (([1, 1], [1, 1], [0, 0], 0), 7)"
    by code_simp
  from refresh_frame [OF h1 h2 h3 h4 h5 h6 h7, of counter_ops 0 counter_randbelow 2 5] nf r v
  show ?thesis by auto
qed

text \<open>
  C10 as stated, for every triplet dataset, fails: on the evaluation dataset built from a
  single record labelled 0 the partition \<open>indices_1\<close> is empty, and the refresh stops with
  the \<^verbatim>\<open>ValueError\<close> of \<^verbatim>\<open>choice\<close> on an empty list.
\<close>

theorem refresh_empty_partition_counterexample:
  "MolDatasetTriplet_init counter_ops 0 store_1_0 False False (PyBool False) None = Inr eval_1_0
   \<and> refresh_fixed_triplets counter_ops 0 eval_1_0 0 = Inl ValueError"
  by code_simp

section \<open>The epochs of the training loop\<close>

text \<open>
  The loop never completes its first epoch: the epoch 0 skips the refresh and its train
  pass stops at \<^verbatim>\<open>shuffle_data\<close>.
\<close>

lemma train_triplet_stops_in_epoch_0:
  assumes "indices_1 dataset \<noteq> []" and "0 < n_epochs"
  shows "train_triplet np fresh batches batch_size dataset n_epochs u = Inl AttributeError"
proof -
  from assms(2) have "[0..<n_epochs] = 0 # [1..<n_epochs]"
    by (simp add: upt_conv_Cons)
  with assms(1) show ?thesis
    by (simp add: train_triplet_def refresh_for_epoch_def run_pass_def shuffle_data_def)
qed

text \<open>
  C4. For every epoch \<open>e > 0\<close> with fixed training triplets, the loop is to refresh the
  cache of the training dataset before the passes of that epoch. Run for three epochs on
  the training dataset built with fixed triplets for the seed 0, it raises an
  \<^verbatim>\<open>AttributeError\<close> in the train pass of the epoch 0 and refreshes nothing, although the
  refresh of lines 33 and 34 alone, applied to that dataset for the epoch 1, returns the
  dataset refreshed with the seed 1. Lemma \<open>train_triplet_stops_in_epoch_0\<close> shows the
  same for every dataset, number of epochs above 0 and batch loop.
\<close>

theorem train_triplet_attribute_error:
  "MolDatasetTriplet_init counter_ops 0 store_3_1 True False (PyBool True) (Some 0)
     = Inr fixed_training_3_1
   \<and> refresh_for_epoch counter_ops 0 True 1 fixed_training_3_1 = Inr refreshed_seed_1
   \<and> train_triplet counter_ops 0 no_batches 32 fixed_training_3_1 3 True = Inl AttributeError"
  by code_simp

end
